theory Spec2Isabelle
  imports Main "HOL-Library.Word"
begin

unbundle bit_operations_syntax

section \<open>Provider package: \<^verbatim>\<open>pkg/provider/basic.go\<close>\<close>

subsection \<open>Data\<close>

text \<open>
  \<^verbatim>\<open>oauth2.AuthStyle\<close> and \<^verbatim>\<open>oauth2.Endpoint\<close> of \<^verbatim>\<open>golang.org/x/oauth2\<close>. The zero
  value of the style is \<^verbatim>\<open>AuthStyleAutoDetect\<close>.
\<close>

datatype auth_style = AuthStyleAutoDetect | AuthStyleInParams | AuthStyleInHeader

record Endpoint =
  AuthURL :: string
  TokenURL :: string
  AuthStyle :: auth_style

text \<open>
  The error values the factories and the provider return. They are declared in a file of
  the package that is not part of the sources at hand; only their identity matters here.
  \<^verbatim>\<open>OptionError\<close> carries the fields \<^verbatim>\<open>Option\<close> and \<^verbatim>\<open>Message\<close>.
\<close>

datatype provider_error =
    ErrNoProviderWithVersion
  | ErrNoOptions
  | ErrAuthRequired
  | OptionError string string

text \<open>\<^verbatim>\<open>type basic struct { vsn int; endpoint oauth2.Endpoint; isAuthorizationRequired bool }\<close>\<close>

record basic =
  vsn :: int
  endpoint :: Endpoint
  isAuthorizationRequired :: bool

text \<open>An \<^verbatim>\<open>*http.Client\<close> is an opaque handle; \<^verbatim>\<open>nil\<close> is \<open>None\<close>.\<close>

datatype http_Client = HTTPClient nat

text \<open>\<^verbatim>\<open>oauth2.Config\<close> and \<^verbatim>\<open>clientcredentials.Config\<close>, with the fields the package sets.\<close>

record oauth2_Config =
  oa_ClientID :: string
  oa_ClientSecret :: string
  oa_Endpoint :: Endpoint
  oa_RedirectURL :: string
  oa_Scopes :: "string list"

record clientcredentials_Config =
  cc_ClientID :: string
  cc_ClientSecret :: string
  cc_TokenURL :: string
  cc_Scopes :: "string list"

record basicExchangeConfigBuilder =
  xb_config :: oauth2_Config
  xb_client :: "http_Client option"

record basicExchangeConfig =
  xc_config :: oauth2_Config
  xc_client :: "http_Client option"

record basicTokenConfigBuilder =
  tb_config :: clientcredentials_Config
  tb_client :: "http_Client option"

text \<open>
  Provider options are a Go \<^verbatim>\<open>map[string]string\<close>. Indexing a missing key yields the empty
  string; \<^verbatim>\<open>len(opts) != 0\<close> says that the map has a key.
\<close>

type_synonym options = "string \<rightharpoonup> string"

definition index :: "options \<Rightarrow> string \<Rightarrow> string" where
  "index opts k = (case opts k of None \<Rightarrow> [] | Some s \<Rightarrow> s)"

type_synonym FactoryFunc = "int \<Rightarrow> options \<Rightarrow> provider_error + basic"

subsection \<open>The methods of \<^verbatim>\<open>basic\<close>\<close>

definition Version :: "basic \<Rightarrow> int" where
  "Version b = vsn b"

definition IsAuthorizationRequired :: "basic \<Rightarrow> bool" where
  "IsAuthorizationRequired b = isAuthorizationRequired b"

definition NewExchangeConfigBuilder :: "basic \<Rightarrow> string \<Rightarrow> string \<Rightarrow> basicExchangeConfigBuilder" where
  "NewExchangeConfigBuilder b clientID clientSecret =
     \<lparr>xb_config = \<lparr>oa_ClientID = clientID, oa_ClientSecret = clientSecret,
                   oa_Endpoint = endpoint b, oa_RedirectURL = [], oa_Scopes = []\<rparr>,
      xb_client = None\<rparr>"

definition WithRedirectURL :: "basicExchangeConfigBuilder \<Rightarrow> string \<Rightarrow> basicExchangeConfigBuilder" where
  "WithRedirectURL cb redirectURL =
     cb\<lparr>xb_config := (xb_config cb)\<lparr>oa_RedirectURL := redirectURL\<rparr>\<rparr>"

definition Build :: "basicExchangeConfigBuilder \<Rightarrow> basicExchangeConfig" where
  "Build cb = \<lparr>xc_config = xb_config cb, xc_client = xb_client cb\<rparr>"

definition NewTokenConfigBuilder :: "basic \<Rightarrow> string \<Rightarrow> string \<Rightarrow> provider_error + basicTokenConfigBuilder" where
  "NewTokenConfigBuilder b clientID clientSecret =
     (if IsAuthorizationRequired b then Inl ErrAuthRequired
      else Inr \<lparr>tb_config = \<lparr>cc_ClientID = clientID, cc_ClientSecret = clientSecret,
                              cc_TokenURL = TokenURL (endpoint b), cc_Scopes = []\<rparr>,
                tb_client = None\<rparr>)"

subsection \<open>The factories\<close>

text \<open>
  Each factory starts with \<^verbatim>\<open>switch vsn { case -1, 1: default: return nil, ErrNoProviderWithVersion }\<close>.
  The struct literal of \<^verbatim>\<open>basicFactory\<close> and \<^verbatim>\<open>azureADFactory\<close> leaves
  \<^verbatim>\<open>isAuthorizationRequired\<close> at its zero value.
\<close>

definition basicFactory :: "Endpoint \<Rightarrow> FactoryFunc" where
  "basicFactory ep v opts =
     (if v \<noteq> - 1 \<and> v \<noteq> 1 then Inl ErrNoProviderWithVersion
      else if opts \<noteq> Map.empty then Inl ErrNoOptions
      else Inr \<lparr>vsn = 1, endpoint = ep, isAuthorizationRequired = False\<rparr>)"

text \<open>
  \<^verbatim>\<open>microsoft.AzureADEndpoint\<close> belongs to \<^verbatim>\<open>golang.org/x/oauth2/microsoft\<close>; it is the
  parameter \<open>AzureADEndpoint\<close>.
\<close>

definition azureADFactory :: "(string \<Rightarrow> Endpoint) \<Rightarrow> FactoryFunc" where
  "azureADFactory AzureADEndpoint v opts =
     (if v \<noteq> - 1 \<and> v \<noteq> 1 then Inl ErrNoProviderWithVersion
      else let tenant = index opts ''tenant'' in
        if tenant = [] then Inl (OptionError ''tenant'' ''tenant is required'')
        else Inr \<lparr>vsn = 1, endpoint = AzureADEndpoint tenant, isAuthorizationRequired = False\<rparr>)"

text \<open>
  \<^verbatim>\<open>oidc.NewProvider\<close> fetches the discovery document over the network; it is the parameter
  \<open>NewProvider\<close>, which returns the text of the error or the endpoint of the discovered
  provider.
\<close>

definition customFactory :: "bool \<Rightarrow> (string \<Rightarrow> string + Endpoint) \<Rightarrow> FactoryFunc" where
  "customFactory isAuthRequired NewProvider v opts =
     (if v \<noteq> - 1 \<and> v \<noteq> 1 then Inl ErrNoProviderWithVersion
      else let discoveryURL = index opts ''discovery_url'' in
        case (if discoveryURL \<noteq> [] then
                (case NewProvider discoveryURL of
                   Inl e \<Rightarrow> Inl (OptionError ''discovery_url'' (''error making new provider: '' @ e))
                 | Inr p \<Rightarrow> Inr (AuthURL p, TokenURL p))
              else Inr (index opts ''auth_code_url'', index opts ''token_url'')) of
          Inl e \<Rightarrow> Inl e
        | Inr (authURL, tokenURL) \<Rightarrow>
            if isAuthRequired \<and> authURL = [] then
              Inl (OptionError ''auth_code_url'' ''authorization code URL is required'')
            else if tokenURL = [] then
              Inl (OptionError ''token_url'' ''token URL is required'')
            else
              case (let s = index opts ''auth_style'' in
                    if s = ''in_header'' then Inr AuthStyleInHeader
                    else if s = ''in_params'' then Inr AuthStyleInParams
                    else if s = [] then Inr AuthStyleAutoDetect
                    else Inl (OptionError ''auth_style''
                      ''unknown authentication style; expected one of \"in_header\" or \"in_params\"'')) of
                Inl e \<Rightarrow> Inl e
              | Inr authStyle \<Rightarrow>
                  Inr \<lparr>vsn = 1,
                       endpoint = \<lparr>AuthURL = authURL, TokenURL = tokenURL, AuthStyle = authStyle\<rparr>,
                       isAuthorizationRequired = isAuthRequired\<rparr>)"

subsection \<open>The registry filled by \<^verbatim>\<open>init\<close>\<close>

text \<open>
  What \<^verbatim>\<open>init\<close> takes from other packages: the endpoints of the named services, the
  Azure AD endpoint of a tenant, and OIDC discovery.
\<close>

record packages =
  bitbucket_Endpoint :: Endpoint
  github_Endpoint :: Endpoint
  gitlab_Endpoint :: Endpoint
  google_Endpoint :: Endpoint
  slack_Endpoint :: Endpoint
  microsoft_AzureADEndpoint :: "string \<Rightarrow> Endpoint"
  oidc_NewProvider :: "string \<Rightarrow> string + Endpoint"

definition GlobalRegistry :: "packages \<Rightarrow> (string \<times> FactoryFunc) list" where
  "GlobalRegistry X =
     [(''bitbucket'', basicFactory (bitbucket_Endpoint X)),
      (''github'', basicFactory (github_Endpoint X)),
      (''gitlab'', basicFactory (gitlab_Endpoint X)),
      (''google'', basicFactory (google_Endpoint X)),
      (''microsoft_azure_ad'', azureADFactory (microsoft_AzureADEndpoint X)),
      (''slack'', basicFactory (slack_Endpoint X)),
      (''custom'', customFactory True (oidc_NewProvider X)),
      (''custom_client_credentials'', customFactory False (oidc_NewProvider X))]"

section \<open>SHA-1 and the storage key\<close>

subsection \<open>\<^verbatim>\<open>crypto/sha1\<close>\<close>

text \<open>
  \<^verbatim>\<open>sha1.Sum\<close> of the Go standard library, following FIPS 180-4: the message is padded
  with \<^verbatim>\<open>0x80\<close>, zero bytes up to 56 modulo 64 and the length in bits as a 64-bit
  big-endian number, and every block of 64 bytes goes through 80 rounds on five 32-bit
  words. The result is the 20 bytes of the five words, big-endian.
\<close>

type_synonym byte = "8 word"

type_synonym digest = "32 word \<times> 32 word \<times> 32 word \<times> 32 word \<times> 32 word"

definition rotl :: "nat \<Rightarrow> 32 word \<Rightarrow> 32 word" where
  "rotl n x = push_bit n x OR drop_bit (32 - n) x"

definition be32 :: "32 word \<Rightarrow> byte list" where
  "be32 w = [ucast (drop_bit 24 w), ucast (drop_bit 16 w), ucast (drop_bit 8 w), ucast w]"

definition be64 :: "64 word \<Rightarrow> byte list" where
  "be64 w = [ucast (drop_bit 56 w), ucast (drop_bit 48 w), ucast (drop_bit 40 w),
             ucast (drop_bit 32 w), ucast (drop_bit 24 w), ucast (drop_bit 16 w),
             ucast (drop_bit 8 w), ucast w]"

definition word_of_bytes :: "byte list \<Rightarrow> 32 word" where
  "word_of_bytes bs = foldl (\<lambda>w b. push_bit 8 w OR ucast b) 0 bs"

definition padding :: "nat \<Rightarrow> byte list" where
  "padding len =
     (let t = (if len mod 64 < 56 then 56 - len mod 64 else 64 + 56 - len mod 64)
      in 0x80 # replicate (t - 1) 0 @ be64 (push_bit 3 (of_nat len)))"

definition schedule :: "byte list \<Rightarrow> 32 word list" where
  "schedule p =
     fold (\<lambda>t w. w @ [rotl 1 (w ! (t - 3) XOR w ! (t - 8) XOR w ! (t - 14) XOR w ! (t - 16))])
       [16..<80]
       (map (\<lambda>i. word_of_bytes (take 4 (drop (4 * i) p))) [0..<16])"

definition round :: "nat \<Rightarrow> 32 word \<Rightarrow> digest \<Rightarrow> digest" where
  "round t w s =
     (case s of (a, b, c, d, e) \<Rightarrow>
        let (f, k) =
              (if t < 20 then ((b AND c) OR (NOT b AND d), 0x5A827999)
               else if t < 40 then (b XOR c XOR d, 0x6ED9EBA1)
               else if t < 60 then (((b OR c) AND d) OR (b AND c), 0x8F1BBCDC)
               else (b XOR c XOR d, 0xCA62C1D6))
        in (rotl 5 a + f + e + w + k, a, rotl 30 b, c, d))"

definition block :: "byte list \<Rightarrow> digest \<Rightarrow> digest" where
  "block p h =
     (let w = schedule p in
      case (h, fold (\<lambda>t. round t (w ! t)) [0..<80] h) of
        ((h0, h1, h2, h3, h4), (a, b, c, d, e)) \<Rightarrow> (h0 + a, h1 + b, h2 + c, h3 + d, h4 + e))"

definition init_digest :: digest where
  "init_digest = (0x67452301, 0xEFCDAB89, 0x98BADCFE, 0x10325476, 0xC3D2E1F0)"

definition sha1_Sum :: "byte list \<Rightarrow> byte list" where
  "sha1_Sum m =
     (let p = m @ padding (length m) in
      case fold (\<lambda>i. block (take 64 (drop (64 * i) p))) [0..<length p div 64] init_digest of
        (h0, h1, h2, h3, h4) \<Rightarrow> be32 h0 @ be32 h1 @ be32 h2 @ be32 h3 @ be32 h4)"

subsection \<open>\<^verbatim>\<open>credKey\<close>\<close>

text \<open>The verb \<^verbatim>\<open>%x\<close> prints a byte slice as two lower-case hexadecimal digits per byte.\<close>

definition hexdigit :: "nat \<Rightarrow> char" where
  "hexdigit n = ''0123456789abcdef'' ! n"

definition hex_byte :: "byte \<Rightarrow> string" where
  "hex_byte b = [hexdigit (unat b div 16), hexdigit (unat b mod 16)]"

definition hex :: "byte list \<Rightarrow> string" where
  "hex bs = concat (map hex_byte bs)"

definition credsPath :: string where
  "credsPath = ''creds''"

definition credsPathPrefix :: string where
  "credsPathPrefix = credsPath @ ''/''"

text \<open>
  A Go string is its bytes, as a \<^typ>\<open>string\<close> is here. The slices \<^verbatim>\<open>hash[:2]\<close>,
  \<^verbatim>\<open>hash[2:4]\<close> and \<^verbatim>\<open>hash[4:]\<close> of the 20-byte array are always in range.
\<close>

definition credKey :: "string \<Rightarrow> string" where
  "credKey name =
     (let hash = sha1_Sum (map of_char name);
          first = take 2 hash; second = take 2 (drop 2 hash); rest = drop 4 hash
      in credsPathPrefix @ hex first @ ''/'' @ hex second @ ''/'' @ hex rest)"

section \<open>Backend package: \<^verbatim>\<open>pkg/backend/path_creds.go\<close>\<close>

subsection \<open>Data\<close>

text \<open>
  \<^verbatim>\<open>oauth2.Token\<close>. A \<^verbatim>\<open>time.Time\<close> is the number of nanoseconds since the zero time,
  so \<^verbatim>\<open>IsZero\<close> is equality with 0.
\<close>

record Token =
  AccessToken :: string
  TokenType :: string
  RefreshToken :: string
  Expiry :: int

text \<open>
  \<^verbatim>\<open>Token.Valid\<close> of \<^verbatim>\<open>golang.org/x/oauth2\<close>: the access token is not empty and the token
  has not expired, where a token with a zero expiry never expires and any other expires
  ten seconds early. The \<^verbatim>\<open>nil\<close> token is handled by the caller. The clock is the
  parameter \<open>now\<close>.
\<close>

definition expiryDelta :: int where
  "expiryDelta = 10 * 1000000000"

definition expired :: "int \<Rightarrow> Token \<Rightarrow> bool" where
  "expired now t = (if Expiry t = 0 then False else Expiry t - expiryDelta < now)"

definition Valid :: "int \<Rightarrow> Token \<Rightarrow> bool" where
  "Valid now t = (AccessToken t \<noteq> [] \<and> \<not> expired now t)"

text \<open>
  Go errors. \<^verbatim>\<open>*oauth2.RetrieveError\<close> is the error of a token endpoint that answered with
  a rejection; \<^verbatim>\<open>ErrNotConfigured\<close> and \<^verbatim>\<open>ErrInvalidCredentials\<close> are the sentinel values
  of the backend package; every other error is identified by its text.
\<close>

datatype go_error =
    RetrieveError string
  | ErrNotConfigured
  | ErrInvalidCredentials
  | OtherError string

text \<open>
  \<^verbatim>\<open>logical.Response\<close> with its \<^verbatim>\<open>Data\<close> map, and \<^verbatim>\<open>logical.ErrorResponse\<close>, which
  puts the text under the key \<^verbatim>\<open>error\<close>.
\<close>

datatype go_value = VString string | VTime int

record Response =
  Data :: "string \<rightharpoonup> go_value"

definition ErrorResponse :: "string \<Rightarrow> Response" where
  "ErrorResponse text = \<lparr>Data = [''error'' \<mapsto> VString text]\<rparr>"

text \<open>
  The fields of a request to \<^verbatim>\<open>creds/{name}\<close>. The path pattern always binds
  \<^verbatim>\<open>name\<close>; for every other field \<^verbatim>\<open>data.GetOk\<close> says whether it was supplied.
\<close>

record FieldData =
  fd_name :: string
  fd_code :: "string option"
  fd_redirect_url :: "string option"
  fd_refresh_token :: "string option"
  fd_scopes :: "string list option"

text \<open>The stored configuration, with the fields \<^verbatim>\<open>path_creds.go\<close> reads.\<close>

record Config =
  ClientID :: string
  ClientSecret :: string

text \<open>The credential records of \<^verbatim>\<open>req.Storage\<close>, by key.\<close>

type_synonym storage = "string \<rightharpoonup> Token"

subsection \<open>\<^verbatim>\<open>credsReadOperation\<close>\<close>

text \<open>
  \<^verbatim>\<open>getRefreshToken\<close> is a method of the backend whose body is not part of the sources at
  hand: its two results are taken as they come. \<^verbatim>\<open>Token.Type\<close> and the clock belong to
  other packages.
\<close>

record read_env =
  getRefreshToken :: "string \<Rightarrow> string list option \<Rightarrow> Token option \<times> go_error option"
  timeNow :: int
  Type :: "Token \<Rightarrow> string"

definition credsReadOperation :: "read_env \<Rightarrow> FieldData \<Rightarrow> Response option \<times> go_error option" where
  "credsReadOperation R d =
     (let key = credKey (fd_name d);
          (tok, err) =
            (case fd_scopes d of
               Some scopes \<Rightarrow> getRefreshToken R key (Some scopes)
             | None \<Rightarrow> getRefreshToken R key None)
      in if err = Some ErrNotConfigured then (Some (ErrorResponse ''not configured''), None)
         else if err = Some ErrInvalidCredentials then
           (Some (ErrorResponse ''invalid client credentials''), None)
         else if err \<noteq> None then (None, err)
         else case tok of
           None \<Rightarrow> (None, None)
         | Some t \<Rightarrow>
             if \<not> Valid (timeNow R) t then (Some (ErrorResponse ''token expired''), None)
             else
               let rd = [''access_token'' \<mapsto> VString (AccessToken t),
                         ''type'' \<mapsto> VString (Type R t)];
                   rd = (if Expiry t \<noteq> 0 then rd(''expire_time'' \<mapsto> VTime (Expiry t)) else rd)
               in (Some \<lparr>Data = rd\<rparr>, None))"

subsection \<open>\<^verbatim>\<open>credsUpdateOperation\<close> and \<^verbatim>\<open>credsDeleteOperation\<close>\<close>

text \<open>
  What the two operations call outside this file: \<^verbatim>\<open>getConfig\<close> (which reads the
  configuration from storage) and \<^verbatim>\<open>config.provider\<close> of the backend package, the two
  network calls of \<^verbatim>\<open>oauth2.Config\<close>, the JSON encoding of a storage entry, and the
  storage itself, whose \<^verbatim>\<open>Put\<close> and \<^verbatim>\<open>Delete\<close> can fail.
\<close>

record backend_env =
  getConfig :: "go_error + Config option"
  provider :: "Config \<Rightarrow> go_error + basic"
  Exchange :: "basicExchangeConfig \<Rightarrow> string \<Rightarrow> go_error + Token"
  TokenSource_Token :: "basicExchangeConfig \<Rightarrow> string \<Rightarrow> go_error + Token"
  StorageEntryJSON_error :: "string \<Rightarrow> Token \<Rightarrow> go_error option"
  Put_error :: "string \<Rightarrow> go_error option"
  Delete_error :: "string \<Rightarrow> go_error option"

text \<open>
  What an operation does besides returning, in program order: reading the configuration,
  the two network calls with the configuration and the code or refresh token they send,
  a line in the error log, \<^verbatim>\<open>credMut.Lock\<close> and the deferred \<^verbatim>\<open>credMut.Unlock\<close>, and the
  storage calls with their key.
\<close>

datatype event =
    GetConfig
  | ExchangeCall basicExchangeConfig string
  | RefreshCall basicExchangeConfig string
  | LogError string
  | Lock
  | Unlock
  | StoragePut string
  | StorageDelete string

record outcome =
  response :: "Response option"
  error :: "go_error option"
  store :: storage
  events :: "event list"

definition credsUpdateOperation :: "backend_env \<Rightarrow> storage \<Rightarrow> FieldData \<Rightarrow> outcome" where
  "credsUpdateOperation E st d =
     (case getConfig E of
        Inl e \<Rightarrow> \<lparr>response = None, error = Some e, store = st, events = [GetConfig]\<rparr>
      | Inr None \<Rightarrow>
          \<lparr>response = Some (ErrorResponse ''not configured''), error = None, store = st,
           events = [GetConfig]\<rparr>
      | Inr (Some c) \<Rightarrow>
         (case provider E c of
            Inl e \<Rightarrow> \<lparr>response = None, error = Some e, store = st, events = [GetConfig]\<rparr>
          | Inr p \<Rightarrow>
              if \<not> IsAuthorizationRequired p then
                \<lparr>response = Some (ErrorResponse
                   ''this provider does not support creating credentials. Use \"read\" command to retrieve token''),
                 error = None, store = st, events = [GetConfig]\<rparr>
              else
                let key = credKey (fd_name d);
                    cb = NewExchangeConfigBuilder p (ClientID c) (ClientSecret c);
                    r = (case fd_code d of
                           Some code \<Rightarrow>
                             (case fd_refresh_token d of
                                Some _ \<Rightarrow>
                                  Inl \<lparr>response = Some (ErrorResponse ''cannot use both code and refresh_token''),
                                       error = None, store = st, events = [GetConfig]\<rparr>
                              | None \<Rightarrow>
                                  let cb = (case fd_redirect_url d of
                                              Some redirectURL \<Rightarrow> WithRedirectURL cb redirectURL
                                            | None \<Rightarrow> cb);
                                      cfg = Build cb
                                  in case Exchange E cfg code of
                                       Inl (RetrieveError rErr) \<Rightarrow>
                                         Inl \<lparr>response = Some (ErrorResponse ''invalid code''),
                                              error = None, store = st,
                                              events = [GetConfig, ExchangeCall cfg code,
                                                        LogError ''invalid code'']\<rparr>
                                     | Inl e \<Rightarrow>
                                         Inl \<lparr>response = None, error = Some e, store = st,
                                              events = [GetConfig, ExchangeCall cfg code]\<rparr>
                                     | Inr tok \<Rightarrow> Inr (tok, [GetConfig, ExchangeCall cfg code]))
                         | None \<Rightarrow>
                             (case fd_refresh_token d of
                                Some refreshToken \<Rightarrow>
                                  let cfg = Build cb
                                  in (case TokenSource_Token E cfg refreshToken of
                                        Inl (RetrieveError rErr) \<Rightarrow>
                                          Inl \<lparr>response = Some (ErrorResponse ''invalid refresh_token''),
                                               error = None, store = st,
                                               events = [GetConfig, RefreshCall cfg refreshToken,
                                                         LogError ''invalid refresh_token'']\<rparr>
                                      | Inl e \<Rightarrow>
                                          Inl \<lparr>response = None, error = Some e, store = st,
                                               events = [GetConfig, RefreshCall cfg refreshToken]\<rparr>
                                      | Inr tok \<Rightarrow> Inr (tok, [GetConfig, RefreshCall cfg refreshToken]))
                              | None \<Rightarrow>
                                  Inl \<lparr>response = Some (ErrorResponse ''missing code or refresh_token''),
                                       error = None, store = st, events = [GetConfig]\<rparr>))
                in case r of
                     Inl out \<Rightarrow> out
                   | Inr (tok, tr) \<Rightarrow>
                      (case StorageEntryJSON_error E key tok of
                         Some e \<Rightarrow>
                           \<lparr>response = None, error = Some e, store = st,
                            events = tr @ [Lock, Unlock]\<rparr>
                       | None \<Rightarrow>
                          (case Put_error E key of
                             Some e \<Rightarrow>
                               \<lparr>response = None, error = Some e, store = st,
                                events = tr @ [Lock, StoragePut key, Unlock]\<rparr>
                           | None \<Rightarrow>
                               \<lparr>response = None, error = None, store = st(key \<mapsto> tok),
                                events = tr @ [Lock, StoragePut key, Unlock]\<rparr>))))"

definition credsDeleteOperation :: "backend_env \<Rightarrow> storage \<Rightarrow> FieldData \<Rightarrow> outcome" where
  "credsDeleteOperation E st d =
     (let key = credKey (fd_name d) in
      case Delete_error E key of
        Some e \<Rightarrow>
          \<lparr>response = None, error = Some e, store = st,
           events = [Lock, StorageDelete key, Unlock]\<rparr>
      | None \<Rightarrow>
          \<lparr>response = None, error = None, store = st(key := None),
           events = [Lock, StorageDelete key, Unlock]\<rparr>)"

subsection \<open>The lock along a sequence of events\<close>

text \<open>
  \<open>holds h evs\<close> says whether the lock is held after the events \<open>evs\<close>, when it was
  held (\<open>h\<close>) or not before them. \<open>under_lock P h evs\<close> says that every event with the
  property \<open>P\<close> happens while the lock is held, and \<open>outside_lock P h evs\<close> that every
  such event happens while it is not.
\<close>

fun step_lock :: "bool \<Rightarrow> event \<Rightarrow> bool" where
  "step_lock h Lock = True"
| "step_lock h Unlock = False"
| "step_lock h e = h"

fun holds :: "bool \<Rightarrow> event list \<Rightarrow> bool" where
  "holds h [] = h"
| "holds h (e # evs) = holds (step_lock h e) evs"

fun under_lock :: "(event \<Rightarrow> bool) \<Rightarrow> bool \<Rightarrow> event list \<Rightarrow> bool" where
  "under_lock P h [] = True"
| "under_lock P h (e # evs) = ((P e \<longrightarrow> h) \<and> under_lock P (step_lock h e) evs)"

fun outside_lock :: "(event \<Rightarrow> bool) \<Rightarrow> bool \<Rightarrow> event list \<Rightarrow> bool" where
  "outside_lock P h [] = True"
| "outside_lock P h (e # evs) = ((P e \<longrightarrow> \<not> h) \<and> outside_lock P (step_lock h e) evs)"

fun is_network :: "event \<Rightarrow> bool" where
  "is_network (ExchangeCall cfg code) = True"
| "is_network (RefreshCall cfg refreshToken) = True"
| "is_network e = False"

fun is_storage :: "event \<Rightarrow> bool" where
  "is_storage GetConfig = True"
| "is_storage (StoragePut k) = True"
| "is_storage (StorageDelete k) = True"
| "is_storage e = False"

fun is_write :: "event \<Rightarrow> bool" where
  "is_write (StoragePut k) = True"
| "is_write (StorageDelete k) = True"
| "is_write e = False"

section \<open>Example inputs\<close>

text \<open>
  A provider as \<^verbatim>\<open>customFactory\<close> builds it, a configured backend whose provider answers
  every token request with \<open>answer\<close> and whose storage does not fail, a request to
  \<^verbatim>\<open>creds/a\<close>, and a read whose token expired long ago.
\<close>

definition example_provider :: "bool \<Rightarrow> basic" where
  "example_provider authRequired =
     \<lparr>vsn = 1,
      endpoint = \<lparr>AuthURL = ''https://x/auth'', TokenURL = ''https://x/token'',
                  AuthStyle = AuthStyleAutoDetect\<rparr>,
      isAuthorizationRequired = authRequired\<rparr>"

definition example_token :: Token where
  "example_token = \<lparr>AccessToken = ''abc'', TokenType = ''Bearer'', RefreshToken = [], Expiry = 1\<rparr>"

definition example_env :: "bool \<Rightarrow> go_error + Token \<Rightarrow> backend_env" where
  "example_env authRequired answer =
     \<lparr>getConfig = Inr (Some \<lparr>ClientID = ''id'', ClientSecret = ''secret''\<rparr>),
      provider = (\<lambda>c. Inr (example_provider authRequired)),
      Exchange = (\<lambda>cfg code. answer),
      TokenSource_Token = (\<lambda>cfg refreshToken. answer),
      StorageEntryJSON_error = (\<lambda>k t. None),
      Put_error = (\<lambda>k. None),
      Delete_error = (\<lambda>k. None)\<rparr>"

definition example_request :: "string option \<Rightarrow> string option \<Rightarrow> FieldData" where
  "example_request c r =
     \<lparr>fd_name = ''a'', fd_code = c, fd_redirect_url = None, fd_refresh_token = r,
      fd_scopes = None\<rparr>"

definition example_config :: basicExchangeConfig where
  "example_config = Build (NewExchangeConfigBuilder (example_provider True) ''id'' ''secret'')"

definition example_read_env :: read_env where
  "example_read_env =
     \<lparr>getRefreshToken = (\<lambda>key scopes. (Some example_token, None)),
      timeNow = 1000000000000,
      Type = (\<lambda>t. ''Bearer'')\<rparr>"

text \<open>A backend whose mount has no configuration.\<close>

definition unconfigured_env :: backend_env where
  "unconfigured_env =
     \<lparr>getConfig = Inr None,
      provider = (\<lambda>c. Inr (example_provider True)),
      Exchange = (\<lambda>cfg code. Inr example_token),
      TokenSource_Token = (\<lambda>cfg refreshToken. Inr example_token),
      StorageEntryJSON_error = (\<lambda>k t. None),
      Put_error = (\<lambda>k. None),
      Delete_error = (\<lambda>k. None)\<rparr>"

text \<open>
  The name \<^verbatim>\<open>test\<close> with its padding, which is one block, and the 80 words of the
  schedule of that block.
\<close>

definition test_block :: "byte list" where
  "test_block =
     [116, 101, 115, 116, 128, 0, 0, 0, 0, 0, 0, 0, 0, 0, 0, 0, 0, 0, 0, 0, 0, 0, 0, 0, 0, 0,
     0, 0, 0, 0, 0, 0, 0, 0, 0, 0, 0, 0, 0, 0, 0, 0, 0, 0, 0, 0, 0, 0, 0, 0, 0, 0, 0, 0, 0,
     0, 0, 0, 0, 0, 0, 0, 0, 32]"

definition test_schedule :: "32 word list" where
  "test_schedule =
     [1952805748, 2147483648, 0, 0, 0, 0, 0, 0, 0, 0, 0, 0, 0, 0, 0, 32, 3905611496, 1, 64,
     3516255697, 2, 128, 2737544099, 68, 3516255441, 1180120901, 8, 512, 2360241806, 336,
     2546138774, 425516503, 1925076562, 2054, 851032890, 1180119559, 1594620498, 1702065500,
     1180121031, 8456, 2360467375, 5384, 2083514729, 2513296881, 2295266948, 33124,
     1842120164, 589567163, 2574083911, 1463244250, 1702066548, 1594489818, 2370489751,
     88200, 4031196333, 1558043225, 3554939410, 1702585116, 2594138497, 843147962, 443001814,
     1937066413, 1833912680, 1699897820, 3105786648, 1378536, 803830140, 2830009825,
     3472786440, 8479744, 3431326829, 605337891, 3788056855, 928369223, 369755153, 279388098,
     487021027, 22581440, 283538366, 3098088424]"

section \<open>Versions and options of the provider factories\<close>

lemma basicFactory_bad_version:
  "v \<noteq> - 1 \<Longrightarrow> v \<noteq> 1 \<Longrightarrow> basicFactory ep v opts = Inl ErrNoProviderWithVersion"
  by (simp add: basicFactory_def)

lemma azureADFactory_bad_version:
  "v \<noteq> - 1 \<Longrightarrow> v \<noteq> 1 \<Longrightarrow> azureADFactory az v opts = Inl ErrNoProviderWithVersion"
  by (simp add: azureADFactory_def)

lemma customFactory_bad_version:
  "v \<noteq> - 1 \<Longrightarrow> v \<noteq> 1 \<Longrightarrow> customFactory a np v opts = Inl ErrNoProviderWithVersion"
  by (simp add: customFactory_def)

lemma basicFactory_latest: "basicFactory ep (- 1) opts = basicFactory ep 1 opts"
  by (simp add: basicFactory_def)

lemma azureADFactory_latest: "azureADFactory az (- 1) opts = azureADFactory az 1 opts"
  by (simp add: azureADFactory_def)

lemma customFactory_latest: "customFactory a np (- 1) opts = customFactory a np 1 opts"
  by (simp add: customFactory_def)

lemma basicFactory_no_version_error: "basicFactory ep 1 opts \<noteq> Inl ErrNoProviderWithVersion"
  by (simp add: basicFactory_def)

lemma azureADFactory_no_version_error: "azureADFactory az 1 opts \<noteq> Inl ErrNoProviderWithVersion"
  by (simp add: azureADFactory_def Let_def)

lemma customFactory_no_version_error: "customFactory a np 1 opts \<noteq> Inl ErrNoProviderWithVersion"
  by (simp add: customFactory_def Let_def split: sum.splits prod.splits)

lemma basicFactory_Version: "basicFactory ep v opts = Inr p \<Longrightarrow> Version p = 1"
  by (auto simp: basicFactory_def Version_def split: if_splits)

lemma azureADFactory_Version: "azureADFactory az v opts = Inr p \<Longrightarrow> Version p = 1"
  by (auto simp: azureADFactory_def Version_def Let_def split: if_splits)

lemma customFactory_Version: "customFactory a np v opts = Inr p \<Longrightarrow> Version p = 1"
  by (auto simp: customFactory_def Version_def Let_def split: if_splits sum.splits prod.splits)

lemma basicFactory_succeeds:
  "basicFactory ep 1 Map.empty = Inr \<lparr>vsn = 1, endpoint = ep, isAuthorizationRequired = False\<rparr>"
  by (simp add: basicFactory_def)

lemma azureADFactory_succeeds:
  "azureADFactory az 1 [''tenant'' \<mapsto> ''t''] =
     Inr \<lparr>vsn = 1, endpoint = az ''t'', isAuthorizationRequired = False\<rparr>"
  by (simp add: azureADFactory_def index_def)

lemma example_provider_built:
  "customFactory a np 1 [''auth_code_url'' \<mapsto> ''https://x/auth'', ''token_url'' \<mapsto> ''https://x/token'']
     = Inr (example_provider a)"
  by (simp add: customFactory_def index_def example_provider_def)

lemma customFactory_succeeds:
  "customFactory a np 1 [''auth_code_url'' \<mapsto> ''u'', ''token_url'' \<mapsto> ''t''] =
     Inr \<lparr>vsn = 1, endpoint = \<lparr>AuthURL = ''u'', TokenURL = ''t'', AuthStyle = AuthStyleAutoDetect\<rparr>,
          isAuthorizationRequired = a\<rparr>"
  by (simp add: customFactory_def index_def)

lemma registered_cases:
  assumes "(n, f) \<in> set (GlobalRegistry X)"
  obtains ep where "f = basicFactory ep"
  | "f = azureADFactory (microsoft_AzureADEndpoint X)"
  | a where "f = customFactory a (oidc_NewProvider X)"
  using assms by (auto simp: GlobalRegistry_def)

text \<open>
  Claim C6. Every factory of the registry (the named services, \<^verbatim>\<open>microsoft_azure_ad\<close>,
  \<^verbatim>\<open>custom\<close>, \<^verbatim>\<open>custom_client_credentials\<close>) answers a version other than -1 and 1 with
  \<^verbatim>\<open>ErrNoProviderWithVersion\<close>, whatever the options. The versions -1 and 1 are accepted
  and treated alike: the factory never answers them with that error, it does with -1
  exactly what it does with 1, and there are options with which both succeed. Every
  provider a factory returns has \<^verbatim>\<open>Version() = 1\<close>, also when -1 was requested.
\<close>

theorem registered_factory_versions:
  assumes "(n, f) \<in> set (GlobalRegistry X)"
  shows "(v \<noteq> - 1 \<and> v \<noteq> 1 \<longrightarrow> f v opts = Inl ErrNoProviderWithVersion)
       \<and> (v = - 1 \<or> v = 1 \<longrightarrow> f v opts \<noteq> Inl ErrNoProviderWithVersion \<and> f v opts = f 1 opts)
       \<and> (\<forall>p. f v opts = Inr p \<longrightarrow> (v = - 1 \<or> v = 1) \<and> Version p = 1)
       \<and> (\<exists>os p. f (- 1) os = Inr p \<and> f 1 os = Inr p \<and> Version p = 1)"
proof -
  have bad: "v \<noteq> - 1 \<and> v \<noteq> 1 \<longrightarrow> f v opts = Inl ErrNoProviderWithVersion"
    using assms
    by (rule registered_cases)
       (simp_all add: basicFactory_bad_version azureADFactory_bad_version customFactory_bad_version)
  have latest: "f (- 1) os = f 1 os" for os
    using assms
    by (rule registered_cases)
       (simp_all add: basicFactory_latest azureADFactory_latest customFactory_latest)
  have noerr: "f 1 opts \<noteq> Inl ErrNoProviderWithVersion"
    using assms
    by (rule registered_cases)
       (simp_all add: basicFactory_no_version_error azureADFactory_no_version_error
          customFactory_no_version_error)
  have good: "v = - 1 \<or> v = 1 \<longrightarrow> f v opts \<noteq> Inl ErrNoProviderWithVersion \<and> f v opts = f 1 opts"
    using latest [of opts] noerr by auto
  have vers: "Version p = 1" if h: "f w os = Inr p" for w os p
  proof (rule registered_cases [OF assms])
    fix ep assume "f = basicFactory ep"
    with h show ?thesis by (auto dest: basicFactory_Version)
  next
    assume "f = azureADFactory (microsoft_AzureADEndpoint X)"
    with h show ?thesis by (auto dest: azureADFactory_Version)
  next
    fix a assume "f = customFactory a (oidc_NewProvider X)"
    with h show ?thesis by (auto dest: customFactory_Version)
  qed
  have res: "\<forall>p. f v opts = Inr p \<longrightarrow> (v = - 1 \<or> v = 1) \<and> Version p = 1"
    using bad vers by auto
  have "\<exists>os p. f 1 os = Inr p"
  proof (rule registered_cases [OF assms])
    fix ep assume "f = basicFactory ep"
    then show ?thesis using basicFactory_succeeds by blast
  next
    assume "f = azureADFactory (microsoft_AzureADEndpoint X)"
    then show ?thesis using azureADFactory_succeeds by blast
  next
    fix a assume "f = customFactory a (oidc_NewProvider X)"
    then show ?thesis using customFactory_succeeds by blast
  qed
  then obtain os p where ok: "f 1 os = Inr p" by blast
  with vers have "Version p = 1" by blast
  with ok latest [of os] have ex: "\<exists>os p. f (- 1) os = Inr p \<and> f 1 os = Inr p \<and> Version p = 1"
    by auto
  from bad good res ex show ?thesis by blast
qed

theorem registered_factory_versions_witness:
  "basicFactory \<lparr>AuthURL = ''a'', TokenURL = ''t'', AuthStyle = AuthStyleAutoDetect\<rparr> 1 Map.empty
     = Inr \<lparr>vsn = 1, endpoint = \<lparr>AuthURL = ''a'', TokenURL = ''t'', AuthStyle = AuthStyleAutoDetect\<rparr>,
            isAuthorizationRequired = False\<rparr>
   \<and> Version \<lparr>vsn = 1, endpoint = \<lparr>AuthURL = ''a'', TokenURL = ''t'', AuthStyle = AuthStyleAutoDetect\<rparr>,
            isAuthorizationRequired = False\<rparr> = 1
   \<and> basicFactory \<lparr>AuthURL = ''a'', TokenURL = ''t'', AuthStyle = AuthStyleAutoDetect\<rparr> 2 Map.empty
     = Inl ErrNoProviderWithVersion"
proof -
  let ?ep = "\<lparr>AuthURL = ''a'', TokenURL = ''t'', AuthStyle = AuthStyleAutoDetect\<rparr>"
  let ?X = "\<lparr>bitbucket_Endpoint = ?ep, github_Endpoint = ?ep, gitlab_Endpoint = ?ep,
             google_Endpoint = ?ep, slack_Endpoint = ?ep,
             microsoft_AzureADEndpoint = (\<lambda>t. ?ep), oidc_NewProvider = (\<lambda>u. Inr ?ep)\<rparr>"
  have mem: "(''github'', basicFactory ?ep) \<in> set (GlobalRegistry ?X)"
    by (simp add: GlobalRegistry_def)
  have ok: "basicFactory ?ep 1 Map.empty = Inr \<lparr>vsn = 1, endpoint = ?ep, isAuthorizationRequired = False\<rparr>"
    by (simp add: basicFactory_def)
  from registered_factory_versions [OF mem, of 1 Map.empty] ok
  have "Version \<lparr>vsn = 1, endpoint = ?ep, isAuthorizationRequired = False\<rparr> = 1" by simp
  moreover from registered_factory_versions [OF mem, of 2 Map.empty]
  have "basicFactory ?ep 2 Map.empty = Inl ErrNoProviderWithVersion" by simp
  ultimately show ?thesis using ok by simp
qed

text \<open>
  Claim C7. With an accepted version, an empty required option is answered with an
  \<^verbatim>\<open>OptionError\<close> that names the option and carries a message: \<^verbatim>\<open>tenant\<close> for
  \<^verbatim>\<open>azureADFactory\<close>; \<^verbatim>\<open>token_url\<close> for \<^verbatim>\<open>customFactory\<close> without
  \<^verbatim>\<open>discovery_url\<close>; \<^verbatim>\<open>auth_code_url\<close> for the factory that requires authorization,
  which checks that option before \<^verbatim>\<open>token_url\<close>.
\<close>

theorem empty_required_option_error:
  assumes "v = - 1 \<or> v = 1"
  shows "(index opts ''tenant'' = [] \<longrightarrow>
            azureADFactory az v opts = Inl (OptionError ''tenant'' ''tenant is required''))
       \<and> (index opts ''discovery_url'' = [] \<and> index opts ''token_url'' = [] \<longrightarrow>
            customFactory False np v opts = Inl (OptionError ''token_url'' ''token URL is required''))
       \<and> (index opts ''discovery_url'' = [] \<and> index opts ''token_url'' = []
            \<and> index opts ''auth_code_url'' \<noteq> [] \<longrightarrow>
            customFactory True np v opts = Inl (OptionError ''token_url'' ''token URL is required''))
       \<and> (index opts ''discovery_url'' = [] \<and> index opts ''auth_code_url'' = [] \<longrightarrow>
            customFactory True np v opts =
              Inl (OptionError ''auth_code_url'' ''authorization code URL is required''))"
  using assms by (auto simp: azureADFactory_def customFactory_def)

theorem empty_required_option_error_witness:
  "azureADFactory (\<lambda>t. \<lparr>AuthURL = t, TokenURL = t, AuthStyle = AuthStyleAutoDetect\<rparr>) 1 Map.empty
     = Inl (OptionError ''tenant'' ''tenant is required'')
   \<and> customFactory False (\<lambda>u. Inl ''unreachable'') 1 Map.empty
     = Inl (OptionError ''token_url'' ''token URL is required'')
   \<and> customFactory True (\<lambda>u. Inl ''unreachable'') 1 [''auth_code_url'' \<mapsto> ''https://x/auth'']
     = Inl (OptionError ''token_url'' ''token URL is required'')
   \<and> customFactory True (\<lambda>u. Inl ''unreachable'') 1 Map.empty
     = Inl (OptionError ''auth_code_url'' ''authorization code URL is required'')"
  using empty_required_option_error [of 1 Map.empty "\<lambda>t. \<lparr>AuthURL = t, TokenURL = t, AuthStyle = AuthStyleAutoDetect\<rparr>" "\<lambda>u. Inl ''unreachable''"]
    empty_required_option_error [of 1 "[''auth_code_url'' \<mapsto> ''https://x/auth'']" "\<lambda>t. \<lparr>AuthURL = t, TokenURL = t, AuthStyle = AuthStyleAutoDetect\<rparr>" "\<lambda>u. Inl ''unreachable''"]
  by (simp add: index_def)

text \<open>
  Claim C8. \<^verbatim>\<open>NewTokenConfigBuilder\<close> returns \<^verbatim>\<open>ErrAuthRequired\<close> exactly when
  \<^verbatim>\<open>IsAuthorizationRequired\<close> is true, and exactly when it is false it returns, with no
  error, the client-credentials builder for the given client and the token URL of the
  provider.
\<close>

theorem NewTokenConfigBuilder_auth_required:
  "(NewTokenConfigBuilder p clientID clientSecret = Inl ErrAuthRequired \<longleftrightarrow> IsAuthorizationRequired p)
   \<and> ((\<exists>e. NewTokenConfigBuilder p clientID clientSecret = Inl e) \<longleftrightarrow> IsAuthorizationRequired p)
   \<and> (NewTokenConfigBuilder p clientID clientSecret =
        Inr \<lparr>tb_config = \<lparr>cc_ClientID = clientID, cc_ClientSecret = clientSecret,
                          cc_TokenURL = TokenURL (endpoint p), cc_Scopes = []\<rparr>,
             tb_client = None\<rparr>
      \<longleftrightarrow> \<not> IsAuthorizationRequired p)
   \<and> ((\<exists>b. NewTokenConfigBuilder p clientID clientSecret = Inr b) \<longleftrightarrow> \<not> IsAuthorizationRequired p)"
  by (simp add: NewTokenConfigBuilder_def)

theorem NewTokenConfigBuilder_auth_required_witness:
  "NewTokenConfigBuilder (example_provider True) ''id'' ''secret'' = Inl ErrAuthRequired
   \<and> NewTokenConfigBuilder (example_provider False) ''id'' ''secret'' =
        Inr \<lparr>tb_config = \<lparr>cc_ClientID = ''id'', cc_ClientSecret = ''secret'',
                          cc_TokenURL = ''https://x/token'', cc_Scopes = []\<rparr>,
             tb_client = None\<rparr>"
  using NewTokenConfigBuilder_auth_required [of "example_provider True" "''id''" "''secret''"]
    NewTokenConfigBuilder_auth_required [of "example_provider False" "''id''" "''secret''"]
  by (simp add: example_provider_def IsAuthorizationRequired_def)

section \<open>The storage key\<close>

subsection \<open>SHA-1 of the name \<^verbatim>\<open>test\<close>\<close>

text \<open>
  The digest of \<^verbatim>\<open>test\<close> is \<^verbatim>\<open>a94a8fe5ccb19ba61c4c0873d391e987982fbbd3\<close>. The 80 rounds
  are evaluated in four parts.
\<close>

lemma replicate_numeral: "replicate (numeral k) x = x # replicate (pred_numeral k) x"
  by (simp add: numeral_eq_Suc)

lemma upt_from_0: "[0..<numeral n] = 0 # [Suc 0..<numeral n]"
  by (simp add: upt_conv_Cons)

lemma upt_from_1: "[Suc 0..<numeral n] = (if Suc 0 < numeral n then Suc 0 # [2..<numeral n] else [])"
  by (simp add: upt_conv_Cons numeral_2_eq_2)

lemma test_padding: "[116, 101, 115, 116] @ padding 4 = test_block"
  by (simp add: padding_def be64_def replicate_numeral test_block_def)

lemma test_schedule: "schedule test_block = test_schedule"
  by (simp add: schedule_def word_of_bytes_def rotl_def upt_from_0 upt_from_1 test_block_def
      test_schedule_def)

lemma test_rounds_20:
  "fold (\<lambda>t. round t (test_schedule ! t)) [0..<20] init_digest
   = (2777999301, 3621960537, 1245059103, 4217413193, 27537528)"
  by (simp add: round_def rotl_def init_digest_def upt_from_0 upt_from_1 test_schedule_def)

lemma test_rounds_40:
  "fold (\<lambda>t. round t (test_schedule ! t)) [20..<40]
     (2777999301, 3621960537, 1245059103, 4217413193, 27537528)
   = (2163558847, 3980266869, 1825228364, 1177215599, 261333318)"
  by (simp add: round_def rotl_def test_schedule_def)

lemma test_rounds_60:
  "fold (\<lambda>t. round t (test_schedule ! t)) [40..<60]
     (2163558847, 3980266869, 1825228364, 1177215599, 261333318)
   = (327674340, 705716227, 3642317243, 1828322527, 2228378586)"
  by (simp add: round_def rotl_def test_schedule_def)

lemma test_rounds_80:
  "fold (\<lambda>t. round t (test_schedule ! t)) [60..<80]
     (327674340, 705716227, 3642317243, 1828322527, 2228378586)
   = (1107651812, 3705925661, 2207329141, 3277821201, 3562854883)"
  by (simp add: round_def rotl_def test_schedule_def)

lemma upt_80: "[0..<80] = [0..<20] @ [20..<40] @ [40..<60] @ [60..<80]"
  by (simp add: upt_from_0 upt_from_1)

lemma test_rounds:
  "fold (\<lambda>t. round t (test_schedule ! t)) [0..<80] init_digest
   = (1107651812, 3705925661, 2207329141, 3277821201, 3562854883)"
  by (simp only: upt_80 fold_append o_apply test_rounds_20 test_rounds_40 test_rounds_60
      test_rounds_80)

lemma test_block_digest:
  "block test_block init_digest = (0xA94A8FE5, 0xCCB19BA6, 0x1C4C0873, 0xD391E987, 0x982FBBD3)"
proof -
  have "block test_block init_digest =
          (case (init_digest, (1107651812, 3705925661, 2207329141, 3277821201, 3562854883)) of
             ((h0, h1, h2, h3, h4), (a, b, c, d, e)) \<Rightarrow> (h0 + a, h1 + b, h2 + c, h3 + d, h4 + e))"
    by (simp only: block_def Let_def test_schedule test_rounds)
  then show ?thesis by (simp add: init_digest_def)
qed

lemma sha1_test:
  "sha1_Sum [116, 101, 115, 116] =
     [0xA9, 0x4A, 0x8F, 0xE5, 0xCC, 0xB1, 0x9B, 0xA6, 0x1C, 0x4C,
      0x08, 0x73, 0xD3, 0x91, 0xE9, 0x87, 0x98, 0x2F, 0xBB, 0xD3]"
proof -
  have l: "length [116, 101, 115, 116 :: byte] = 4"
    by simp
  have p: "[116, 101, 115, 116] @ padding (length [116, 101, 115, 116 :: byte]) = test_block"
    by (simp only: l test_padding)
  have n: "[0..<length test_block div 64] = [0]"
    by (simp add: test_block_def)
  have t: "take 64 (drop (64 * 0) test_block) = test_block"
    by (simp add: test_block_def)
  have "sha1_Sum [116, 101, 115, 116] =
          (case block test_block init_digest of
             (h0, h1, h2, h3, h4) \<Rightarrow> be32 h0 @ be32 h1 @ be32 h2 @ be32 h3 @ be32 h4)"
    by (simp only: sha1_Sum_def Let_def p n fold.simps o_apply id_apply t)
  then show ?thesis by (simp add: test_block_digest be32_def)
qed

lemma credKey_test: "credKey ''test'' = ''creds/a94a/8fe5/ccb19ba61c4c0873d391e987982fbbd3''"
  by (simp add: credKey_def sha1_test hex_def hex_byte_def hexdigit_def credsPathPrefix_def
      credsPath_def)

subsection \<open>Shape and collisions of the key\<close>

lemma length_be32: "length (be32 w) = 4"
  by (simp add: be32_def)

lemma length_sha1_Sum: "length (sha1_Sum m) = 20"
  by (simp add: sha1_Sum_def Let_def length_be32 split: prod.splits)

lemma hexdigit_inj:
  assumes "i < 16" and "j < 16" and "hexdigit i = hexdigit j"
  shows "i = j"
proof -
  have d: "distinct ''0123456789abcdef''" by simp
  have l: "length ''0123456789abcdef'' = 16" by simp
  from assms(3) have "''0123456789abcdef'' ! i = ''0123456789abcdef'' ! j"
    by (simp only: hexdigit_def)
  with assms(1,2) l show ?thesis
    using nth_eq_iff_index_eq [OF d, of i j] by (simp only:)
qed

lemma hex_byte_inj:
  assumes "hex_byte a = hex_byte b"
  shows "a = b"
proof -
  have "unat a < 2 ^ LENGTH(8)" and "unat b < 2 ^ LENGTH(8)"
    by (rule unsigned_less)+
  then have ra: "unat a < 256" and rb: "unat b < 256" by simp_all
  from assms have hi: "hexdigit (unat a div 16) = hexdigit (unat b div 16)"
    and lo: "hexdigit (unat a mod 16) = hexdigit (unat b mod 16)"
    by (simp_all add: hex_byte_def)
  from ra rb have da: "unat a div 16 < 16" and db: "unat b div 16 < 16" by simp_all
  from da db hi have q: "unat a div 16 = unat b div 16" by (rule hexdigit_inj)
  have ma: "unat a mod 16 < 16" and mb: "unat b mod 16 < 16" by simp_all
  from ma mb lo have r: "unat a mod 16 = unat b mod 16" by (rule hexdigit_inj)
  from q r have "unat a = unat b" by (metis div_mult_mod_eq)
  then show ?thesis by (simp add: word_unat_eq_iff)
qed

lemma hex_Cons: "hex (b # bs) = hexdigit (unat b div 16) # hexdigit (unat b mod 16) # hex bs"
  by (simp add: hex_def hex_byte_def)

lemma length_hex: "length (hex bs) = 2 * length bs"
  by (induction bs) (simp_all add: hex_Cons, simp add: hex_def)

lemma hex_inj: "hex xs = hex ys \<Longrightarrow> xs = ys"
proof (induction xs arbitrary: ys)
  case Nil
  then show ?case by (cases ys) (simp_all add: hex_Cons, simp add: hex_def)
next
  case (Cons x xs)
  then obtain y ys' where ys: "ys = y # ys'"
    using length_hex [of ys] length_hex [of "x # xs"] by (cases ys) simp_all
  with Cons.prems have "hex_byte x = hex_byte y" and "hex xs = hex ys'"
    by (simp_all add: hex_Cons hex_byte_def)
  with Cons.IH ys show ?case by (simp add: hex_byte_inj)
qed

lemma shards_join: "take 2 xs @ take 2 (drop 2 xs) @ drop 4 xs = xs"
proof -
  have "drop 4 xs = drop 2 (drop 2 xs)" by simp
  then show ?thesis by (simp only: append_take_drop_id)
qed

lemma credKey_shape:
  "credKey n = ''creds/'' @ hex (take 2 (sha1_Sum (map of_char n))) @ ''/''
     @ hex (take 2 (drop 2 (sha1_Sum (map of_char n)))) @ ''/''
     @ hex (drop 4 (sha1_Sum (map of_char n)))"
  by (simp add: credKey_def credsPathPrefix_def credsPath_def Let_def)

lemma credKey_same_hash:
  assumes "credKey a = credKey b"
  shows "sha1_Sum (map of_char a) = sha1_Sum (map of_char b)"
proof -
  let ?h = "sha1_Sum (map of_char a)" and ?k = "sha1_Sum (map of_char b)"
  from assms have e: "hex (take 2 ?h) @ (''/'' @ hex (take 2 (drop 2 ?h)) @ ''/'' @ hex (drop 4 ?h))
      = hex (take 2 ?k) @ (''/'' @ hex (take 2 (drop 2 ?k)) @ ''/'' @ hex (drop 4 ?k))"
    by (simp add: credKey_shape)
  have "length (hex (take 2 ?h)) = length (hex (take 2 ?k))"
    by (simp add: length_hex length_sha1_Sum)
  with e have first: "hex (take 2 ?h) = hex (take 2 ?k)"
    and e2: "hex (take 2 (drop 2 ?h)) @ (''/'' @ hex (drop 4 ?h))
      = hex (take 2 (drop 2 ?k)) @ (''/'' @ hex (drop 4 ?k))"
    by simp_all
  have "length (hex (take 2 (drop 2 ?h))) = length (hex (take 2 (drop 2 ?k)))"
    by (simp add: length_hex length_sha1_Sum)
  with e2 have second: "hex (take 2 (drop 2 ?h)) = hex (take 2 (drop 2 ?k))"
    and rest: "hex (drop 4 ?h) = hex (drop 4 ?k)"
    by simp_all
  from first have s1: "take 2 ?h = take 2 ?k" by (rule hex_inj)
  from second have s2: "take 2 (drop 2 ?h) = take 2 (drop 2 ?k)" by (rule hex_inj)
  from rest have s3: "drop 4 ?h = drop 4 ?k" by (rule hex_inj)
  from s1 s2 s3
  have "take 2 ?h @ take 2 (drop 2 ?h) @ drop 4 ?h = take 2 ?k @ take 2 (drop 2 ?k) @ drop 4 ?k"
    by (simp only:)
  then show ?thesis by (simp only: shards_join)
qed

text \<open>
  Claim C5. \<^verbatim>\<open>credKey\<close> is a function of the name alone: the prefix \<^verbatim>\<open>creds/\<close>, then the
  first 2 bytes, the next 2 bytes and the remaining 16 bytes of the 20-byte SHA-1 digest
  of the name, each in hexadecimal, joined by \<^verbatim>\<open>/\<close>; the three parts make up the whole
  digest and the key has 48 characters. Two names have the same key exactly when their
  digests are equal.
\<close>

theorem credKey_sharded_sha1:
  "credKey n = ''creds/'' @ hex (take 2 (sha1_Sum (map of_char n))) @ ''/''
     @ hex (take 2 (drop 2 (sha1_Sum (map of_char n)))) @ ''/''
     @ hex (drop 4 (sha1_Sum (map of_char n)))
   \<and> length (sha1_Sum (map of_char n)) = 20
   \<and> take 2 (sha1_Sum (map of_char n)) @ take 2 (drop 2 (sha1_Sum (map of_char n)))
       @ drop 4 (sha1_Sum (map of_char n)) = sha1_Sum (map of_char n)
   \<and> length (credKey n) = 48
   \<and> (credKey a = credKey b \<longleftrightarrow> sha1_Sum (map of_char a) = sha1_Sum (map of_char b))"
proof -
  have len: "length (credKey n) = 48"
    by (simp add: credKey_shape length_hex length_sha1_Sum)
  have "credKey a = credKey b" if "sha1_Sum (map of_char a) = sha1_Sum (map of_char b)"
    using that by (simp add: credKey_shape)
  then have iff: "credKey a = credKey b \<longleftrightarrow> sha1_Sum (map of_char a) = sha1_Sum (map of_char b)"
    using credKey_same_hash by blast
  from len iff credKey_shape [of n] length_sha1_Sum [of "map of_char n"]
    shards_join [of "sha1_Sum (map of_char n)"]
  show ?thesis by (simp only: simp_thms)
qed

theorem credKey_sharded_sha1_witness:
  "credKey ''test'' = ''creds/a94a/8fe5/ccb19ba61c4c0873d391e987982fbbd3''
   \<and> length (credKey ''test'') = 48
   \<and> length (sha1_Sum (map of_char ''test'')) = 20"
  using credKey_sharded_sha1 [of "''test''" "''test''" "''test''"] credKey_test by blast

section \<open>The credential operations\<close>

lemma update_success:
  "credsUpdateOperation (example_env True (Inr example_token)) Map.empty (example_request (Some ''X'') None)
   = \<lparr>response = None, error = None, store = [credKey ''a'' \<mapsto> example_token],
      events = [GetConfig, ExchangeCall example_config ''X'', Lock, StoragePut (credKey ''a''), Unlock]\<rparr>"
  by (simp add: credsUpdateOperation_def example_env_def example_request_def example_config_def
      example_provider_def IsAuthorizationRequired_def Let_def)

text \<open>
  Claim C1, as stated, fails: a successful write with a code reads the configuration and
  performs the token exchange before it takes the lock, so neither every storage access
  nor the network call of the create operation happens under the lock.
\<close>

theorem exchange_before_lock_counterexample:
  "\<not> under_lock is_network False
       (events (credsUpdateOperation (example_env True (Inr example_token)) Map.empty
                  (example_request (Some ''X'') None)))
   \<and> \<not> under_lock is_storage False
       (events (credsUpdateOperation (example_env True (Inr example_token)) Map.empty
                  (example_request (Some ''X'') None)))"
  by (simp add: update_success)

text \<open>
  Claim C1, amended. \<^verbatim>\<open>credsDeleteOperation\<close> takes the lock, then deletes the key, then
  releases the lock. \<^verbatim>\<open>credsUpdateOperation\<close> first reads the configuration and performs
  its network call, both without the lock; every storage write it does happens under the
  lock, and the lock is released when it returns.
\<close>

theorem lock_discipline:
  "events (credsDeleteOperation E st d) = [Lock, StorageDelete (credKey (fd_name d)), Unlock]
   \<and> under_lock is_storage False (events (credsDeleteOperation E st d))
   \<and> \<not> holds False (events (credsDeleteOperation E st d))
   \<and> (\<exists>evs. events (credsUpdateOperation E st d) = GetConfig # evs)
   \<and> outside_lock is_network False (events (credsUpdateOperation E st d))
   \<and> under_lock is_write False (events (credsUpdateOperation E st d))
   \<and> \<not> holds False (events (credsUpdateOperation E st d))"
proof -
  have del: "events (credsDeleteOperation E st d) = [Lock, StorageDelete (credKey (fd_name d)), Unlock]"
    by (simp add: credsDeleteOperation_def Let_def split: option.splits)
  have u1: "\<exists>evs. events (credsUpdateOperation E st d) = GetConfig # evs"
    by (simp add: credsUpdateOperation_def Let_def
        split: sum.splits option.splits go_error.splits prod.splits)
  have u2: "outside_lock is_network False (events (credsUpdateOperation E st d))"
    by (simp add: credsUpdateOperation_def Let_def
        split: sum.splits option.splits go_error.splits prod.splits)
  have u3: "under_lock is_write False (events (credsUpdateOperation E st d))"
    by (simp add: credsUpdateOperation_def Let_def
        split: sum.splits option.splits go_error.splits prod.splits)
  have u4: "\<not> holds False (events (credsUpdateOperation E st d))"
    by (simp add: credsUpdateOperation_def Let_def
        split: sum.splits option.splits go_error.splits prod.splits)
  from del u1 u2 u3 u4 show ?thesis by simp
qed

theorem lock_discipline_witness:
  "events (credsDeleteOperation (example_env True (Inr example_token)) Map.empty (example_request None None))
     = [Lock, StorageDelete (credKey ''a''), Unlock]
   \<and> under_lock is_write False
       (events (credsUpdateOperation (example_env True (Inr example_token)) Map.empty
                  (example_request (Some ''X'') None)))
   \<and> outside_lock is_network False
       (events (credsUpdateOperation (example_env True (Inr example_token)) Map.empty
                  (example_request (Some ''X'') None)))"
  using lock_discipline [of "example_env True (Inr example_token)" Map.empty "example_request None None"]
    lock_discipline [of "example_env True (Inr example_token)" Map.empty "example_request (Some ''X'') None"]
  by (simp add: example_request_def)

text \<open>
  Claim C2, as stated, fails: for a token with the access token \<^verbatim>\<open>abc\<close> that expired long
  ago, the read answers with the error response \<^verbatim>\<open>token expired\<close>, whose data has no
  access token.
\<close>

theorem expired_token_counterexample:
  "credsReadOperation example_read_env (example_request None None)
     = (Some \<lparr>Data = [''error'' \<mapsto> VString ''token expired'']\<rparr>, None)
   \<and> [''error'' \<mapsto> VString ''token expired''] ''access_token'' = None
   \<and> AccessToken example_token = ''abc''
   \<and> \<not> Valid (timeNow example_read_env) example_token"
  by (simp add: credsReadOperation_def example_read_env_def example_token_def
      example_request_def Valid_def expired_def expiryDelta_def ErrorResponse_def)

text \<open>
  Claim C2, amended. When \<^verbatim>\<open>getRefreshToken\<close> hands back, without error, a token that is
  not valid, the read returns the error response \<^verbatim>\<open>token expired\<close> and no Go error; the
  only key of the response data is \<^verbatim>\<open>error\<close>, so the access token is not returned.
\<close>

theorem expired_token_error_response:
  assumes "getRefreshToken R (credKey (fd_name d)) (fd_scopes d) = (Some t, None)"
    and "\<not> Valid (timeNow R) t"
  shows "credsReadOperation R d = (Some (ErrorResponse ''token expired''), None)
       \<and> dom (Data (ErrorResponse ''token expired'')) = {''error''}
       \<and> Data (ErrorResponse ''token expired'') ''error'' = Some (VString ''token expired'')"
  using assms
  by (cases "fd_scopes d") (simp_all add: credsReadOperation_def ErrorResponse_def)

theorem expired_token_error_response_witness:
  "getRefreshToken example_read_env (credKey ''a'') None = (Some example_token, None)
   \<and> \<not> Valid (timeNow example_read_env) example_token
   \<and> credsReadOperation example_read_env (example_request None None)
       = (Some (ErrorResponse ''token expired''), None)"
proof -
  have a: "getRefreshToken example_read_env (credKey (fd_name (example_request None None)))
             (fd_scopes (example_request None None)) = (Some example_token, None)"
    by (simp add: example_read_env_def)
  have b: "\<not> Valid (timeNow example_read_env) example_token"
    by (simp add: example_read_env_def example_token_def Valid_def expired_def expiryDelta_def)
  from expired_token_error_response [OF a b] a b show ?thesis
    by (simp add: example_request_def)
qed

text \<open>
  Claim C3. When a write sends a code to the provider and the answer is an
  \<^verbatim>\<open>oauth2.RetrieveError\<close>, the operation returns the error response \<^verbatim>\<open>invalid code\<close> and
  no Go error, the storage is as before and no \<^verbatim>\<open>Put\<close> happens; likewise with
  \<^verbatim>\<open>invalid refresh_token\<close> when it sends a refresh token.
\<close>

theorem rejected_exchange_not_stored:
  "(ExchangeCall cfg code \<in> set (events (credsUpdateOperation E st d))
      \<and> Exchange E cfg code = Inl (RetrieveError m) \<longrightarrow>
      response (credsUpdateOperation E st d) = Some (ErrorResponse ''invalid code'')
      \<and> error (credsUpdateOperation E st d) = None
      \<and> store (credsUpdateOperation E st d) = st
      \<and> (\<forall>k. StoragePut k \<notin> set (events (credsUpdateOperation E st d))))
   \<and> (RefreshCall cfg refreshToken \<in> set (events (credsUpdateOperation E st d))
      \<and> TokenSource_Token E cfg refreshToken = Inl (RetrieveError m) \<longrightarrow>
      response (credsUpdateOperation E st d) = Some (ErrorResponse ''invalid refresh_token'')
      \<and> error (credsUpdateOperation E st d) = None
      \<and> store (credsUpdateOperation E st d) = st
      \<and> (\<forall>k. StoragePut k \<notin> set (events (credsUpdateOperation E st d))))"
  by (auto simp: credsUpdateOperation_def Let_def
      split: sum.splits option.splits go_error.splits prod.splits if_splits)

theorem rejected_exchange_not_stored_witness:
  "ExchangeCall example_config ''X''
     \<in> set (events (credsUpdateOperation (example_env True (Inl (RetrieveError ''invalid_grant''))) Map.empty
                      (example_request (Some ''X'') None)))
   \<and> Exchange (example_env True (Inl (RetrieveError ''invalid_grant''))) example_config ''X''
       = Inl (RetrieveError ''invalid_grant'')
   \<and> response (credsUpdateOperation (example_env True (Inl (RetrieveError ''invalid_grant''))) Map.empty
                      (example_request (Some ''X'') None)) = Some (ErrorResponse ''invalid code'')
   \<and> store (credsUpdateOperation (example_env True (Inl (RetrieveError ''invalid_grant''))) Map.empty
                      (example_request (Some ''X'') None)) = Map.empty"
proof -
  let ?E = "example_env True (Inl (RetrieveError ''invalid_grant''))"
  let ?d = "example_request (Some ''X'') None"
  have a: "ExchangeCall example_config ''X'' \<in> set (events (credsUpdateOperation ?E Map.empty ?d))"
    by (simp add: credsUpdateOperation_def example_env_def example_request_def example_config_def
        example_provider_def IsAuthorizationRequired_def)
  have b: "Exchange ?E example_config ''X'' = Inl (RetrieveError ''invalid_grant'')"
    by (simp add: example_env_def)
  from rejected_exchange_not_stored [of example_config "''X''" ?E Map.empty ?d "''invalid_grant''"] a b
  show ?thesis by simp
qed

lemma ErrorResponse_inject: "ErrorResponse a = ErrorResponse b \<longleftrightarrow> a = b"
  by (auto simp: ErrorResponse_def dest: map_upd_eqD1)

text \<open>
  Claim C4, as stated, fails: on a mount without configuration a write with both a code
  and a refresh token is answered with \<^verbatim>\<open>not configured\<close>, and a write with neither
  likewise; with a provider that does not require authorization the answer to a write
  with both is the refusal to create credentials. The configuration and the provider are
  checked before the fields.
\<close>

theorem both_fields_unconfigured_counterexample:
  "credsUpdateOperation unconfigured_env Map.empty (example_request (Some ''X'') (Some ''R''))
     = \<lparr>response = Some (ErrorResponse ''not configured''), error = None, store = Map.empty,
        events = [GetConfig]\<rparr>
   \<and> response (credsUpdateOperation unconfigured_env Map.empty
         (example_request (Some ''X'') (Some ''R'')))
       \<noteq> Some (ErrorResponse ''cannot use both code and refresh_token'')
   \<and> response (credsUpdateOperation unconfigured_env Map.empty (example_request None None))
       \<noteq> Some (ErrorResponse ''missing code or refresh_token'')
   \<and> response (credsUpdateOperation (example_env False (Inr example_token)) Map.empty
         (example_request (Some ''X'') (Some ''R'')))
       \<noteq> Some (ErrorResponse ''cannot use both code and refresh_token'')"
  by (simp add: credsUpdateOperation_def unconfigured_env_def example_env_def
      example_provider_def IsAuthorizationRequired_def ErrorResponse_inject)

text \<open>
  Claim C4, amended. A write that supplies both a code and a refresh token performs no
  token exchange and leaves the storage as it is. When the mount is configured and its
  provider resolves and requires authorization, the answer to such a write is the error
  response \<^verbatim>\<open>cannot use both code and refresh_token\<close>, and the answer to a write that
  supplies neither is \<^verbatim>\<open>missing code or refresh_token\<close>.
\<close>

theorem both_or_neither_rejected:
  "(fd_code d \<noteq> None \<and> fd_refresh_token d \<noteq> None \<longrightarrow>
      store (credsUpdateOperation E st d) = st
      \<and> events (credsUpdateOperation E st d) = [GetConfig])
   \<and> (getConfig E = Inr (Some c) \<and> provider E c = Inr p \<and> IsAuthorizationRequired p \<longrightarrow>
        (fd_code d \<noteq> None \<and> fd_refresh_token d \<noteq> None \<longrightarrow>
           credsUpdateOperation E st d =
             \<lparr>response = Some (ErrorResponse ''cannot use both code and refresh_token''),
              error = None, store = st, events = [GetConfig]\<rparr>)
      \<and> (fd_code d = None \<and> fd_refresh_token d = None \<longrightarrow>
           credsUpdateOperation E st d =
             \<lparr>response = Some (ErrorResponse ''missing code or refresh_token''),
              error = None, store = st, events = [GetConfig]\<rparr>))"
  by (auto simp: credsUpdateOperation_def Let_def
      split: sum.splits option.splits go_error.splits prod.splits if_splits)

theorem both_or_neither_rejected_witness:
  "credsUpdateOperation (example_env True (Inr example_token)) Map.empty
       (example_request (Some ''X'') (Some ''R''))
     = \<lparr>response = Some (ErrorResponse ''cannot use both code and refresh_token''),
        error = None, store = Map.empty, events = [GetConfig]\<rparr>
   \<and> credsUpdateOperation (example_env True (Inr example_token)) Map.empty
       (example_request None None)
     = \<lparr>response = Some (ErrorResponse ''missing code or refresh_token''),
        error = None, store = Map.empty, events = [GetConfig]\<rparr>"
  using both_or_neither_rejected [of "example_request (Some ''X'') (Some ''R'')"
      "example_env True (Inr example_token)" Map.empty
      "\<lparr>ClientID = ''id'', ClientSecret = ''secret''\<rparr>" "example_provider True"]
    both_or_neither_rejected [of "example_request None None"
      "example_env True (Inr example_token)" Map.empty
      "\<lparr>ClientID = ''id'', ClientSecret = ''secret''\<rparr>" "example_provider True"]
  by (simp add: example_env_def example_request_def example_provider_def IsAuthorizationRequired_def)

text \<open>
  Claim C9. When the storage does not fail, \<^verbatim>\<open>credsDeleteOperation\<close> returns neither a
  response nor an error and removes the hashed key whatever the storage holds; on a
  storage without the key nothing changes, and a second delete does what the first did.
\<close>

theorem delete_idempotent:
  assumes "Delete_error E (credKey (fd_name d)) = None"
  shows "response (credsDeleteOperation E st d) = None
       \<and> error (credsDeleteOperation E st d) = None
       \<and> store (credsDeleteOperation E st d) = st(credKey (fd_name d) := None)
       \<and> StorageDelete (credKey (fd_name d)) \<in> set (events (credsDeleteOperation E st d))
       \<and> (st (credKey (fd_name d)) = None \<longrightarrow> store (credsDeleteOperation E st d) = st)
       \<and> credsDeleteOperation E (store (credsDeleteOperation E st d)) d = credsDeleteOperation E st d"
  using assms by (auto simp: credsDeleteOperation_def Let_def)

theorem delete_idempotent_witness:
  "Delete_error (example_env True (Inr example_token)) (credKey ''a'') = None
   \<and> response (credsDeleteOperation (example_env True (Inr example_token)) Map.empty (example_request None None)) = None
   \<and> error (credsDeleteOperation (example_env True (Inr example_token)) Map.empty (example_request None None)) = None
   \<and> store (credsDeleteOperation (example_env True (Inr example_token)) Map.empty (example_request None None)) = Map.empty"
proof -
  have a: "Delete_error (example_env True (Inr example_token))
             (credKey (fd_name (example_request None None))) = None"
    by (simp add: example_env_def)
  from delete_idempotent [OF a, of Map.empty] a show ?thesis
    by (simp add: example_request_def)
qed

text \<open>
  Claim C10. With a provider that does not require authorization, a write returns the
  error response that the provider does not support creating credentials, right after
  reading the configuration: no token exchange, no storage write. Neither the write nor
  the delete adds a credential record.
\<close>

theorem two_legged_update_refused:
  assumes "getConfig E = Inr (Some c)" and "provider E c = Inr p"
    and "\<not> IsAuthorizationRequired p"
  shows "credsUpdateOperation E st d =
           \<lparr>response = Some (ErrorResponse
              ''this provider does not support creating credentials. Use \"read\" command to retrieve token''),
            error = None, store = st, events = [GetConfig]\<rparr>
       \<and> dom (store (credsDeleteOperation E st d)) \<subseteq> dom st"
  using assms
  by (auto simp: credsUpdateOperation_def credsDeleteOperation_def Let_def split: option.splits if_splits)

theorem two_legged_update_refused_witness:
  "getConfig (example_env False (Inr example_token)) = Inr (Some \<lparr>ClientID = ''id'', ClientSecret = ''secret''\<rparr>)
   \<and> provider (example_env False (Inr example_token)) \<lparr>ClientID = ''id'', ClientSecret = ''secret''\<rparr>
       = Inr (example_provider False)
   \<and> \<not> IsAuthorizationRequired (example_provider False)
   \<and> credsUpdateOperation (example_env False (Inr example_token)) Map.empty (example_request (Some ''X'') None) =
           \<lparr>response = Some (ErrorResponse
              ''this provider does not support creating credentials. Use \"read\" command to retrieve token''),
            error = None, store = Map.empty, events = [GetConfig]\<rparr>"
proof -
  let ?E = "example_env False (Inr example_token)"
  let ?c = "\<lparr>ClientID = ''id'', ClientSecret = ''secret''\<rparr>"
  have a: "getConfig ?E = Inr (Some ?c)" by (simp add: example_env_def)
  have b: "provider ?E ?c = Inr (example_provider False)" by (simp add: example_env_def)
  have c: "\<not> IsAuthorizationRequired (example_provider False)"
    by (simp add: example_provider_def IsAuthorizationRequired_def)
  from two_legged_update_refused [OF a b c, of Map.empty "example_request (Some ''X'') None"] a b c
  show ?thesis by simp
qed

end
